theory Spec2Isabelle
  imports Main "HOL-Library.Word" "HOL-Library.Sublist"
begin

section \<open>JavaScript values used by the component\<close>

text \<open>
  The component \<open>RunRecipe\<close> of \<open>site/src/components/RunRecipe/index.jsx\<close> is a
  function from its props to a React element tree. A JavaScript string is a sequence of
  16-bit code units; the fixed text of the component is ASCII, embedded by \<open>ascii\<close>.
\<close>

type_synonym jsstring = "16 word list"

definition ascii :: "string \<Rightarrow> jsstring" where
  "ascii s = map of_char s"

text \<open>A value that is a string or \<open>undefined\<close> (an omitted prop, a missing array element).\<close>

type_synonym jsval = "jsstring option"

text \<open>\<open>${v}\<close> inside a template literal: ToString, which prints \<open>undefined\<close> by name.\<close>

definition toString :: "jsval \<Rightarrow> jsstring" where
  "toString v = (case v of None \<Rightarrow> ascii ''undefined'' | Some s \<Rightarrow> s)"

text \<open>\<open>a || b\<close> for a string-or-undefined \<open>a\<close>: \<open>undefined\<close> and the empty string are falsy.\<close>

definition orElse :: "jsval \<Rightarrow> jsstring \<Rightarrow> jsstring" where
  "orElse a b = (case a of None \<Rightarrow> b | Some s \<Rightarrow> if s = [] then b else s)"

text \<open>
  The characters matched by \<open>\s\<close> in an ECMAScript regular expression: WhiteSpace
  (TAB, VT, FF, ZWNBSP and the Unicode space separators) and LineTerminator
  (LF, CR, LS, PS). All of them are single code units.
\<close>

definition isWhiteSpace :: "16 word \<Rightarrow> bool" where
  "isWhiteSpace c =
     (c = 0x0009 \<or> c = 0x000A \<or> c = 0x000B \<or> c = 0x000C \<or> c = 0x000D \<or> c = 0x0020
      \<or> c = 0x00A0 \<or> c = 0x1680 \<or> (0x2000 \<le> c \<and> c \<le> 0x200A) \<or> c = 0x2028
      \<or> c = 0x2029 \<or> c = 0x202F \<or> c = 0x205F \<or> c = 0x3000 \<or> c = 0xFEFF)"

text \<open>
  \<open>s.replace(/\s+/g, '')\<close>: scanning from the left, every maximal run of whitespace
  is matched (\<open>+\<close> is greedy) and replaced by the empty string; any other character is
  copied.
\<close>

function replaceWhiteSpaceRuns :: "jsstring \<Rightarrow> jsstring" where
  "replaceWhiteSpaceRuns [] = []"
| "replaceWhiteSpaceRuns (c # cs) =
     (if isWhiteSpace c then replaceWhiteSpaceRuns (dropWhile isWhiteSpace cs)
      else c # replaceWhiteSpaceRuns cs)"
  by pat_completeness auto
termination
  by (relation "measure length") (auto simp: length_dropWhile_le less_Suc_eq_le)

text \<open>
  \<open>s.split(sep)\<close> for a separator of one code unit: the substrings between the
  occurrences of the separator, in order; a string without the separator gives the
  one-element array holding the string itself.
\<close>

function split_str :: "16 word \<Rightarrow> jsstring \<Rightarrow> jsstring list" where
  "split_str sep s =
     (case dropWhile (\<lambda>c. c \<noteq> sep) s of
        [] \<Rightarrow> [s]
      | _ # rest \<Rightarrow> takeWhile (\<lambda>c. c \<noteq> sep) s # split_str sep rest)"
  by pat_completeness auto
termination
proof (relation "measure (\<lambda>(sep, s). length s)")
  show "wf (measure (\<lambda>(sep :: 16 word, s :: jsstring). length s))"
    by simp
next
  fix sep :: "16 word" and s :: jsstring and x rest
  assume "dropWhile (\<lambda>c. c \<noteq> sep) s = x # rest"
  then have "Suc (length rest) = length (dropWhile (\<lambda>c. c \<noteq> sep) s)"
    by simp
  also have "\<dots> \<le> length s"
    by (rule length_dropWhile_le)
  finally show "((sep, rest), (sep, s)) \<in> measure (\<lambda>(sep, s). length s)"
    by simp
qed

declare split_str.simps [simp del]

text \<open>Array destructuring \<open>const [a, b] = xs\<close>: a missing element is \<open>undefined\<close>.\<close>

definition element_at :: "jsstring list \<Rightarrow> nat \<Rightarrow> jsval" where
  "element_at xs i = (if i < length xs then Some (xs ! i) else None)"

text \<open>A template literal that spans several source lines: the lines joined by LF.\<close>

fun joinLines :: "jsstring list \<Rightarrow> jsstring" where
  "joinLines [] = []"
| "joinLines [l] = l"
| "joinLines (l # ls) = l @ [0x0A] @ joinLines ls"

section \<open>The props and the derived constants\<close>

text \<open>
  The props as the JSDoc comment types them: three required strings, two optional
  strings and an optional boolean whose default is \<open>false\<close>. The destructuring
  pattern of line 17 reads these six and ignores any other prop, so the functions
  below take every extension of the record.
\<close>

record props =
  recipeName :: jsstring
  recipeDisplayName :: jsstring
  artifact :: jsstring
  intellijWrapperName :: jsval
  intellijDescription :: jsval
  requiresYamlInstall :: "bool option"

text \<open>The default of the destructuring pattern, \<open>requiresYamlInstall = false\<close>.\<close>

definition requiresYamlInstallOrDefault :: "'a props_scheme \<Rightarrow> bool" where
  "requiresYamlInstallOrDefault p =
     (case requiresYamlInstall p of None \<Rightarrow> False | Some b \<Rightarrow> b)"

text \<open>
  The body of the component has no \<open>throw\<close>, and \<open>replace\<close>, \<open>split\<close> and template
  literals do not throw on strings. The results below are sums all the same, so that
  the error of the component's contract can be spoken of; no equation produces \<open>Inl\<close>.
\<close>

datatype error = MalformedCoordinateError

text \<open>Line 26, right of \<open>||\<close>: the wrapper name derived from the display name.\<close>

definition deriveWrapperName :: "jsstring \<Rightarrow> jsstring" where
  "deriveWrapperName displayName =
     ascii ''com.github.timtebeek.'' @ replaceWhiteSpaceRuns displayName"

text \<open>Line 27, right of \<open>||\<close>: the description derived from the display name.\<close>

definition deriveDescription :: "jsstring \<Rightarrow> jsstring" where
  "deriveDescription displayName =
     displayName @ ascii '' and apply best practices to assertions.''"

definition wrapperName :: "'a props_scheme \<Rightarrow> jsstring" where
  "wrapperName p = orElse (intellijWrapperName p) (deriveWrapperName (recipeDisplayName p))"

definition description :: "'a props_scheme \<Rightarrow> jsstring" where
  "description p = orElse (intellijDescription p) (deriveDescription (recipeDisplayName p))"

text \<open>
  Line 30, \<open>const [groupId, artifactId] = artifact.split(':')\<close>: the first two
  elements of the array of all colon-separated segments.
\<close>

definition splitArtifact :: "jsstring \<Rightarrow> error + (jsval \<times> jsval)" where
  "splitArtifact a =
     (let parts = split_str 0x3A a in Inr (element_at parts 0, element_at parts 1))"

section \<open>The snippets\<close>

definition modBuild :: jsstring where
  "modBuild = ascii ''mod build ~/workspace/''"

definition modConfigRecipes :: "'a props_scheme \<Rightarrow> jsstring" where
  "modConfigRecipes p =
     (if requiresYamlInstallOrDefault p
      then joinLines
        [ascii ''mod config recipes jar install '' @ artifact p @ ascii '':LATEST'',
         ascii ''mod config recipes yaml install /path/to/your/rewrite.yml'']
      else ascii ''mod config recipes jar install '' @ artifact p @ ascii '':LATEST'')"

definition modRun :: "'a props_scheme \<Rightarrow> jsstring" where
  "modRun p = ascii ''mod run ~/workspace/ --recipe '' @ recipeName p"

definition mavenCli :: "'a props_scheme \<Rightarrow> jsstring" where
  "mavenCli p =
     ascii ''mvn -U org.openrewrite.maven:rewrite-maven-plugin:run -Drewrite.recipeArtifactCoordinates=''
     @ artifact p @ ascii '':RELEASE -Drewrite.activeRecipes='' @ recipeName p
     @ ascii '' -Drewrite.exportDatatables=true''"

definition mavenPom :: "'a props_scheme \<Rightarrow> jsval \<Rightarrow> jsval \<Rightarrow> jsstring" where
  "mavenPom p groupId artifactId = joinLines
     [ascii ''<project>'',
      ascii ''  <build>'',
      ascii ''    <plugins>'',
      ascii ''      <plugin>'',
      ascii ''        <groupId>org.openrewrite.maven</groupId>'',
      ascii ''        <artifactId>rewrite-maven-plugin</artifactId>'',
      ascii ''        <version>LATEST</version>'',
      ascii ''        <configuration>'',
      ascii ''          <exportDatatables>true</exportDatatables>'',
      ascii ''          <activeRecipes>'',
      ascii ''            <recipe>'' @ recipeName p @ ascii ''</recipe>'',
      ascii ''          </activeRecipes>'',
      ascii ''        </configuration>'',
      ascii ''        <dependencies>'',
      ascii ''          <dependency>'',
      ascii ''            <groupId>'' @ toString groupId @ ascii ''</groupId>'',
      ascii ''            <artifactId>'' @ toString artifactId @ ascii ''</artifactId>'',
      ascii ''            <version>LATEST</version>'',
      ascii ''          </dependency>'',
      ascii ''        </dependencies>'',
      ascii ''      </plugin>'',
      ascii ''    </plugins>'',
      ascii ''  </build>'',
      ascii ''</project>'']"

definition gradleInit :: "'a props_scheme \<Rightarrow> jsstring" where
  \<open>gradleInit p = joinLines
     [ascii ''initscript {'',
      ascii ''    repositories {'',
      ascii ''        maven { url "https://plugins.gradle.org/m2" }'',
      ascii ''    }'',
      ascii ''    dependencies { classpath("org.openrewrite:plugin:latest.release") }'',
      ascii ''}'',
      ascii ''rootProject {'',
      ascii ''    plugins.apply(org.openrewrite.gradle.RewritePlugin)'',
      ascii ''    dependencies {'',
      ascii ''        rewrite("'' @ artifact p @ ascii '':latest.release")'',
      ascii ''    }'',
      ascii ''    rewrite {'',
      ascii ''        activeRecipe("'' @ recipeName p @ ascii ''")'',
      ascii ''        setExportDatatables(true)'',
      ascii ''    }'',
      ascii ''    afterEvaluate {'',
      ascii ''        if (repositories.isEmpty()) {'',
      ascii ''            repositories {'',
      ascii ''                mavenCentral()'',
      ascii ''            }'',
      ascii ''        }'',
      ascii ''    }'',
      ascii ''}'']\<close>

definition gradleBuild :: "'a props_scheme \<Rightarrow> jsstring" where
  \<open>gradleBuild p = joinLines
     [ascii ''plugins {'',
      ascii ''    id("org.openrewrite.rewrite") version("latest.release")'',
      ascii ''}'',
      [],
      ascii ''rewrite {'',
      ascii ''    activeRecipe("'' @ recipeName p @ ascii ''")'',
      ascii ''    setExportDatatables(true)'',
      ascii ''}'',
      [],
      ascii ''repositories {'',
      ascii ''    mavenCentral()'',
      ascii ''}'',
      [],
      ascii ''dependencies {'',
      ascii ''    rewrite("'' @ artifact p @ ascii '':latest.release")'',
      ascii ''}'']\<close>

definition intellijYaml :: "'a props_scheme \<Rightarrow> jsstring" where
  "intellijYaml p = joinLines
     [ascii ''---'',
      ascii ''type: specs.openrewrite.org/v1beta/recipe'',
      ascii ''name: '' @ wrapperName p,
      ascii ''displayName: '' @ recipeDisplayName p,
      ascii ''description: '' @ description p,
      ascii ''recipeList:'',
      ascii ''  - '' @ recipeName p]"

section \<open>The element tree\<close>

text \<open>
  What the JSX of lines 123 to 228 evaluates to: an element has a type, its attributes
  and its children; a child is an element or a string. JSX text that spans several
  lines is trimmed line by line and joined by single spaces (\<open>jsxText\<close>); text that is
  only white space with a line break is dropped; \<open>&amp;\<close> stands for \<open>&\<close>.
\<close>

datatype node =
    Text jsstring
  | Element string "(string \<times> jsstring) list" "node list"

fun jsxText :: "string list \<Rightarrow> jsstring" where
  "jsxText [] = []"
| "jsxText [l] = ascii l"
| "jsxText (l # ls) = ascii l @ ascii '' '' @ jsxText ls"

definition CodeBlock :: "string \<Rightarrow> string \<Rightarrow> jsstring \<Rightarrow> node" where
  "CodeBlock language title code =
     Element ''CodeBlock'' [(''language'', ascii language), (''title'', ascii title)] [Text code]"

definition moderneCliTab :: "'a props_scheme \<Rightarrow> node" where
  "moderneCliTab p =
     Element ''TabItem'' [(''value'', ascii ''moderne-cli''), (''label'', ascii ''Moderne CLI'')]
       [Element ''p'' []
          [Text (jsxText
             [''The Moderne CLI allows you to run OpenRewrite recipes on your project without needing to modify your build files,'',
              ''against serialized Lossless Semantic Tree (LST) of your project for a considerable performance boost & across projects.''])],
        Element ''p'' []
          [Text (ascii ''You will need to have configured the''),
           Text (ascii '' ''),
           Element ''a''
             [(''href'', ascii ''https://docs.moderne.io/user-documentation/moderne-cli/getting-started/cli-intro'')]
             [Text (ascii ''Moderne CLI'')],
           Text (ascii '' ''),
           Text (ascii ''on your machine before you can run the following command.'')],
        Element ''ol'' []
          [Element ''li'' []
             [Text (jsxText
                [''If project serialized Lossless Semantic Tree is not yet available locally, then build the LST.'',
                 ''This is only needed the first time, or after extensive changes:'']),
              CodeBlock ''bash'' ''shell'' modBuild],
           Element ''li'' []
             [Text (ascii ''If the recipe is not available locally yet, then you can install it once using:''),
              CodeBlock ''shell'' ''shell'' (modConfigRecipes p)],
           Element ''li'' []
             [Text (ascii ''Run the recipe.''),
              CodeBlock ''shell'' ''shell'' (modRun p)]]]"

definition mavenCommandLineTab :: "'a props_scheme \<Rightarrow> node" where
  "mavenCommandLineTab p =
     Element ''TabItem''
       [(''value'', ascii ''maven-command-line''), (''label'', ascii ''Maven Command Line'')]
       [Element ''p'' []
          [Text (ascii ''You will need to have ''),
           Element ''a'' [(''href'', ascii ''https://maven.apache.org/download.cgi'')]
             [Text (ascii ''Maven'')],
           Text (ascii '' installed on your machine before you can run the following command.'')],
        CodeBlock ''shell'' ''shell'' (mavenCli p)]"

definition mavenPomTab :: "'a props_scheme \<Rightarrow> jsval \<Rightarrow> jsval \<Rightarrow> node" where
  "mavenPomTab p groupId artifactId =
     Element ''TabItem'' [(''value'', ascii ''maven''), (''label'', ascii ''Maven POM'')]
       [Element ''p'' []
          [Text (ascii ''You may add the plugin to your ''),
           Element ''code'' [] [Text (ascii ''pom.xml'')],
           Text (ascii '' file, so that it is available for all developers and CI/CD pipelines.'')],
        Element ''ol'' []
          [Element ''li'' []
             [Text (ascii ''Add the following to your ''),
              Element ''code'' [] [Text (ascii ''pom.xml'')],
              Text (ascii '' file:''),
              CodeBlock ''xml'' ''pom.xml'' (mavenPom p groupId artifactId)],
           Element ''li'' []
             [Text (ascii ''Run the recipe.''),
              CodeBlock ''shell'' ''shell'' (ascii ''mvn rewrite:run'')]]]"

definition gradleInitScriptTab :: "'a props_scheme \<Rightarrow> node" where
  "gradleInitScriptTab p =
     Element ''TabItem''
       [(''value'', ascii ''gradle-init-script''), (''label'', ascii ''Gradle init script'')]
       [Element ''p'' []
          [Text (ascii ''Gradle init scripts are a good way to try out a recipe without modifying your ''),
           Element ''code'' [] [Text (ascii ''build.gradle'')],
           Text (ascii '' file.'')],
        Element ''ol'' []
          [Element ''li'' []
             [Text (ascii ''Create a file named ''),
              Element ''code'' [] [Text (ascii ''init.gradle'')],
              Text (ascii '' in the root of your project.''),
              CodeBlock ''groovy'' ''init.gradle'' (gradleInit p)],
           Element ''li'' []
             [Text (ascii ''Run the recipe.''),
              CodeBlock ''shell'' ''shell'' (ascii ''gradle --init-script init.gradle rewriteRun'')]]]"

definition gradleTab :: "'a props_scheme \<Rightarrow> node" where
  "gradleTab p =
     Element ''TabItem'' [(''value'', ascii ''gradle''), (''label'', ascii ''Gradle'')]
       [Element ''p'' []
          [Text (ascii ''You can add the plugin to your ''),
           Element ''code'' [] [Text (ascii ''build.gradle'')],
           Text (ascii '' file, so that it is available for all developers and CI/CD pipelines.'')],
        Element ''ol'' []
          [Element ''li'' []
             [Text (ascii ''Add the following to your ''),
              Element ''code'' [] [Text (ascii ''build.gradle'')],
              Text (ascii '' file:''),
              CodeBlock ''groovy'' ''build.gradle'' (gradleBuild p)],
           Element ''li'' []
             [Text (ascii ''Run ''),
              Element ''code'' [] [Text (ascii ''gradle rewriteRun'')],
              Text (ascii '' to run the recipe.'')]]]"

text \<open>Lines 213 to 216, the branch of the IntelliJ tab taken when the flag is set.\<close>

definition intellijYamlInstalled :: node where
  "intellijYamlInstalled =
     Element ''Fragment'' []
       [Element ''p'' []
          [Text (ascii ''You can run OpenRewrite recipes directly from IntelliJ IDEA, after ''),
           Element ''a'' [(''href'', ascii ''https://plugins.jetbrains.com/plugin/23814-openrewrite'')]
             [Text (ascii ''installing the OpenRewrite plugin'')],
           Text (ascii ''.'')],
        Element ''p'' []
          [Text (ascii ''After adding the ''),
           Element ''code'' [] [Text (ascii ''rewrite.yml'')],
           Text (ascii '' file shown above to your project, you should see a run icon in the left margin offering to run the recipe.'')]]"

text \<open>Lines 218 to 224, the branch taken otherwise.\<close>

definition intellijYamlShown :: "'a props_scheme \<Rightarrow> node" where
  "intellijYamlShown p =
     Element ''Fragment'' []
       [Element ''p'' []
          [Text (ascii ''You can run OpenRewrite recipes directly from IntelliJ IDEA Ultimate, after ''),
           Element ''a'' [(''href'', ascii ''https://plugins.jetbrains.com/plugin/23814-openrewrite'')]
             [Text (ascii ''installing the OpenRewrite plugin'')],
           Text (ascii '', by adding a ''),
           Element ''code'' [] [Text (ascii ''rewrite.yml'')],
           Text (ascii '' file to your project.'')],
        CodeBlock ''yaml'' ''rewrite.yml'' (intellijYaml p),
        Element ''p'' []
          [Text (ascii ''After adding the file, you should see a run icon in the left margin offering to run the recipe.'')]]"

definition intelliJTab :: "'a props_scheme \<Rightarrow> node" where
  "intelliJTab p =
     Element ''TabItem'' [(''value'', ascii ''intelliJ''), (''label'', ascii ''IntelliJ IDEA Ultimate'')]
       [if requiresYamlInstallOrDefault p then intellijYamlInstalled else intellijYamlShown p]"

text \<open>The component: lines 17 to 229.\<close>

definition RunRecipe :: "'a props_scheme \<Rightarrow> error + node" where
  "RunRecipe p =
     (case splitArtifact (artifact p) of
        Inl e \<Rightarrow> Inl e
      | Inr (groupId, artifactId) \<Rightarrow>
          Inr (Element ''Tabs'' [(''groupId'', ascii ''projectType'')]
                 [moderneCliTab p,
                  mavenCommandLineTab p,
                  mavenPomTab p groupId artifactId,
                  gradleInitScriptTab p,
                  gradleTab p,
                  intelliJTab p]))"

section \<open>Reading the element tree\<close>

text \<open>
  The variants of the specification are the tabs: the children of the root element,
  in order. A variant's label is its \<open>label\<close> attribute, its body is the subtree below
  it, its snippets are the contents of the code blocks in the body, and its text is
  all the text of the body, in document order.
\<close>

fun children :: "node \<Rightarrow> node list" where
  "children (Text s) = []"
| "children (Element t as cs) = cs"

fun attribute :: "string \<Rightarrow> node \<Rightarrow> jsval" where
  "attribute k (Text s) = None"
| "attribute k (Element t as cs) = map_of as k"

fun textContent :: "node \<Rightarrow> jsstring" where
  "textContent (Text s) = s"
| "textContent (Element t as cs) = concat (map textContent cs)"

fun snippets :: "node \<Rightarrow> jsstring list" where
  "snippets (Text s) = []"
| "snippets (Element t as cs) =
     (if t = ''CodeBlock'' then [concat (map textContent cs)] else concat (map snippets cs))"

definition variants :: "'a props_scheme \<Rightarrow> node list" where
  "variants p = (case RunRecipe p of Inl e \<Rightarrow> [] | Inr tree \<Rightarrow> children tree)"

definition labels :: "'a props_scheme \<Rightarrow> jsval list" where
  "labels p = map (attribute ''label'') (variants p)"

text \<open>A string contains another as a contiguous substring.\<close>

definition contains :: "jsstring \<Rightarrow> jsstring \<Rightarrow> bool" where
  "contains s sub = sublist sub s"

section \<open>Example props\<close>

text \<open>
  The props of the pages under \<open>site/docs\<close> that use the component, and variations of
  them used as test inputs below.
\<close>

definition junit6BestPractices :: props where
  "junit6BestPractices =
     \<lparr>recipeName = ascii ''org.openrewrite.java.testing.junit.JUnit6BestPractices'',
      recipeDisplayName = ascii ''JUnit 6 Best Practices'',
      artifact = ascii ''org.openrewrite.recipe:rewrite-testing-frameworks'',
      intellijWrapperName = None,
      intellijDescription = None,
      requiresYamlInstall = None\<rparr>"

definition java21ForTests :: props where
  "java21ForTests =
     \<lparr>recipeName = ascii ''com.github.timtebeek.Java21ForTests'',
      recipeDisplayName = ascii ''Java 21 for tests'',
      artifact = ascii ''org.openrewrite.recipe:rewrite-migrate-java'',
      intellijWrapperName = None,
      intellijDescription = None,
      requiresYamlInstall = Some True\<rparr>"

definition junit4to5Migration :: props where
  "junit4to5Migration =
     \<lparr>recipeName = ascii ''org.openrewrite.java.testing.junit5.JUnit4to5Migration'',
      recipeDisplayName = ascii ''JUnit 4 to 5 Migration'',
      artifact = ascii ''org.openrewrite.recipe:rewrite-testing-frameworks'',
      intellijWrapperName = None,
      intellijDescription = None,
      requiresYamlInstall = Some False\<rparr>"

definition noColonHere :: props where
  "noColonHere =
     \<lparr>recipeName = ascii ''org.openrewrite.java.testing.assertj.Assertj'',
      recipeDisplayName = ascii ''Adopt AssertJ'',
      artifact = ascii ''no-colon-here'',
      intellijWrapperName = None,
      intellijDescription = None,
      requiresYamlInstall = None\<rparr>"

text \<open>
  The props of the AssertJ page, with the wrapper name given as well; both overrides
  equal what the derivation would give.
\<close>

definition adoptAssertJ :: props where
  "adoptAssertJ =
     \<lparr>recipeName = ascii ''org.openrewrite.java.testing.assertj.Assertj'',
      recipeDisplayName = ascii ''Adopt AssertJ'',
      artifact = ascii ''org.openrewrite.recipe:rewrite-testing-frameworks'',
      intellijWrapperName = Some (ascii ''com.github.timtebeek.AdoptAssertJ''),
      intellijDescription = Some (ascii ''Adopt AssertJ and apply best practices to assertions.''),
      requiresYamlInstall = None\<rparr>"



section \<open>Strings, whitespace and splitting\<close>

lemma ascii_Nil [simp]: "ascii [] = []"
  by (simp add: ascii_def)

lemma ascii_append: "ascii (a @ b) = ascii a @ ascii b"
  by (simp add: ascii_def)

lemma unat_of_char16: "unat (of_char c :: 16 word) = of_char c"
proof -
  have "(of_char c :: nat) mod 256 < 256"
    by (rule mod_less_divisor) simp
  then have "(of_char c :: nat) < 256"
    by (simp only: of_char_mod_256)
  moreover have "(256 :: nat) \<le> 2 ^ LENGTH(16)"
    by simp
  ultimately have "(of_char c :: nat) < 2 ^ LENGTH(16)"
    by (rule less_le_trans)
  then have "unat (of_nat (of_char c) :: 16 word) = of_char c"
    by (simp only: unat_of_nat mod_less)
  then show ?thesis
    by (simp only: of_nat_of_char)
qed

lemma ascii_eq_iff: "ascii a = ascii b \<longleftrightarrow> a = b"
proof -
  have "inj (of_char :: char \<Rightarrow> 16 word)"
  proof (rule injI)
    fix c d :: char
    assume "(of_char c :: 16 word) = of_char d"
    then have "unat (of_char c :: 16 word) = unat (of_char d :: 16 word)"
      by simp
    then show "c = d"
      by (simp add: unat_of_char16)
  qed
  then show ?thesis
    by (simp add: ascii_def inj_map_eq_map)
qed

lemma filter_dropWhile: "filter (\<lambda>c. \<not> P c) (dropWhile P xs) = filter (\<lambda>c. \<not> P c) xs"
  by (induction xs) auto

lemma replaceWhiteSpaceRuns_filter:
  "replaceWhiteSpaceRuns s = filter (\<lambda>c. \<not> isWhiteSpace c) s"
  by (induction s rule: replaceWhiteSpaceRuns.induct) (auto simp: filter_dropWhile)

lemma split_str_no_sep:
  assumes "sep \<notin> set s"
  shows "split_str sep s = [s]"
proof -
  have d: "dropWhile (\<lambda>c. c \<noteq> sep) s = []"
    using assms by (induction s) auto
  show ?thesis
    by (subst split_str.simps) (simp only: d list.case)
qed

lemma split_str_sep:
  assumes "sep \<notin> set g"
  shows "split_str sep (g @ sep # r) = g # split_str sep r"
proof -
  have d: "dropWhile (\<lambda>c. c \<noteq> sep) (g @ sep # r) = sep # r"
    using assms by (induction g) auto
  have t: "takeWhile (\<lambda>c. c \<noteq> sep) (g @ sep # r) = g"
    using assms by (induction g) auto
  show ?thesis
    by (subst split_str.simps) (simp add: d t)
qed

lemma takeWhile_no_sep: "sep \<notin> set s \<Longrightarrow> takeWhile (\<lambda>c. c \<noteq> sep) s = s"
  by (induction s) auto

lemma split_str_hd: "\<exists>rest. split_str sep s = takeWhile (\<lambda>c. c \<noteq> sep) s # rest"
proof (cases "sep \<in> set s")
  case False
  then show ?thesis
    by (simp add: split_str_no_sep takeWhile_no_sep)
next
  case True
  then obtain g r where "s = g @ sep # r" and g: "sep \<notin> set g"
    by (meson split_list_first)
  moreover have "takeWhile (\<lambda>c. c \<noteq> sep) (g @ sep # r) = g"
    using g by (induction g) auto
  ultimately show ?thesis
    by (simp add: split_str_sep)
qed

section \<open>The result of the component\<close>

lemma splitArtifact_eq:
  "splitArtifact a = Inr (element_at (split_str 0x3A a) 0, element_at (split_str 0x3A a) 1)"
  by (simp add: splitArtifact_def Let_def)

lemma splitArtifact_no_colon:
  assumes "0x3A \<notin> set a"
  shows "splitArtifact a = Inr (Some a, None)"
  by (simp add: splitArtifact_eq split_str_no_sep [OF assms] element_at_def)

lemma splitArtifact_colon:
  assumes "0x3A \<notin> set g"
  shows "splitArtifact (g @ 0x3A # r) = Inr (Some g, Some (takeWhile (\<lambda>c. c \<noteq> 0x3A) r))"
proof -
  obtain rest where "split_str 0x3A r = takeWhile (\<lambda>c. c \<noteq> 0x3A) r # rest"
    using split_str_hd by blast
  then show ?thesis
    by (simp add: splitArtifact_eq split_str_sep [OF assms] element_at_def)
qed

lemma splitArtifact_second:
  "splitArtifact a = Inr (Some (takeWhile (\<lambda>c. c \<noteq> 0x3A) a),
     if 0x3A \<in> set a
     then Some (takeWhile (\<lambda>c. c \<noteq> 0x3A) (tl (dropWhile (\<lambda>c. c \<noteq> 0x3A) a)))
     else None)"
proof (cases "0x3A \<in> set a")
  case False
  then show ?thesis
    by (simp add: splitArtifact_no_colon takeWhile_no_sep)
next
  case True
  then obtain g r where a: "a = g @ 0x3A # r" and g: "0x3A \<notin> set g"
    by (meson split_list_first)
  have "takeWhile (\<lambda>c. c \<noteq> 0x3A) (g @ 0x3A # r) = g"
    using g by (induction g) auto
  moreover have "dropWhile (\<lambda>c. c \<noteq> 0x3A) (g @ 0x3A # r) = 0x3A # r"
    using g by (induction g) auto
  ultimately show ?thesis
    using True by (simp add: a splitArtifact_colon [OF g])
qed

lemma variants_eq:
  "variants p =
     [moderneCliTab p, mavenCommandLineTab p,
      mavenPomTab p (element_at (split_str 0x3A (artifact p)) 0)
        (element_at (split_str 0x3A (artifact p)) 1),
      gradleInitScriptTab p, gradleTab p, intelliJTab p]"
  by (simp add: variants_def RunRecipe_def splitArtifact_eq)

lemma labels_eq:
  "labels p =
     [Some (ascii ''Moderne CLI''), Some (ascii ''Maven Command Line''),
      Some (ascii ''Maven POM''), Some (ascii ''Gradle init script''),
      Some (ascii ''Gradle''), Some (ascii ''IntelliJ IDEA Ultimate'')]"
  by (simp add: labels_def variants_eq moderneCliTab_def mavenCommandLineTab_def
      mavenPomTab_def gradleInitScriptTab_def gradleTab_def intelliJTab_def)

lemma colon_junit6BestPractices: "0x3A \<in> set (artifact junit6BestPractices)"
  by (simp add: junit6BestPractices_def ascii_def)

section \<open>The variants and their order\<close>

text \<open>
  C1, as the code has it. For every props value whose artifact contains a colon the
  component returns exactly six variants, not five: in this order Moderne CLI, Maven
  Command Line, Maven POM, Gradle init script, Gradle and IntelliJ IDEA Ultimate. The
  fifth is the Gradle build file variant. The IntelliJ variant is the sixth and last,
  and its label and position are the same whether \<open>requiresYamlInstall\<close> is true or
  false.
\<close>

theorem RunRecipe_six_variants:
  assumes "0x3A \<in> set (artifact p)"
  shows "length (variants p) = 6
    \<and> labels p =
         [Some (ascii ''Moderne CLI''), Some (ascii ''Maven Command Line''),
          Some (ascii ''Maven POM''), Some (ascii ''Gradle init script''),
          Some (ascii ''Gradle''), Some (ascii ''IntelliJ IDEA Ultimate'')]
    \<and> labels (p\<lparr>requiresYamlInstall := Some True\<rparr>) ! 5 = Some (ascii ''IntelliJ IDEA Ultimate'')
    \<and> labels (p\<lparr>requiresYamlInstall := Some False\<rparr>) ! 5 = Some (ascii ''IntelliJ IDEA Ultimate'')"
  by (simp add: labels_eq variants_eq)

theorem RunRecipe_six_variants_witness:
  "0x3A \<in> set (artifact junit6BestPractices)
   \<and> length (variants junit6BestPractices) = 6
   \<and> labels junit6BestPractices ! 5 = Some (ascii ''IntelliJ IDEA Ultimate'')"
  using RunRecipe_six_variants [OF colon_junit6BestPractices] colon_junit6BestPractices
  by simp

text \<open>
  C1 as stated fails: the props of the JUnit 6 page have a well-formed artifact, and
  the component returns a number of variants other than five; the fifth label is
  that of the Gradle variant.
\<close>

theorem RunRecipe_five_variants_counterexample:
  "0x3A \<in> set (artifact junit6BestPractices)
   \<and> length (variants junit6BestPractices) \<noteq> 5
   \<and> labels junit6BestPractices ! 4 = Some (ascii ''Gradle'')"
  by (simp add: variants_eq labels_eq colon_junit6BestPractices)

section \<open>Splitting the artifact coordinates\<close>

text \<open>
  C2, as the code has it. Splitting never raises: for every artifact string
  \<open>splitArtifact\<close> returns normally, and it returns the whole string as the group
  with an undefined artifactId if and only if the string contains no colon. The
  component never raises either, and always produces all six variants.
\<close>

theorem splitArtifact_never_raises:
  "splitArtifact a \<noteq> Inl e
   \<and> (splitArtifact a = Inr (Some a, None) \<longleftrightarrow> 0x3A \<notin> set a)
   \<and> RunRecipe p \<noteq> Inl e
   \<and> length (variants p) = 6"
proof -
  have "splitArtifact a = Inr (Some a, None) \<longleftrightarrow> 0x3A \<notin> set a"
    by (cases "0x3A \<in> set a") (auto simp: splitArtifact_no_colon splitArtifact_second)
  then show ?thesis
    by (simp add: splitArtifact_eq RunRecipe_def variants_eq)
qed

theorem splitArtifact_never_raises_witness:
  "splitArtifact (ascii ''no-colon-here'') = Inr (Some (ascii ''no-colon-here''), None)
   \<and> RunRecipe noColonHere \<noteq> Inl MalformedCoordinateError
   \<and> length (variants noColonHere) = 6"
  using splitArtifact_never_raises
    [of "ascii ''no-colon-here''" MalformedCoordinateError noColonHere]
  by (simp add: ascii_def)

text \<open>
  C2 as stated fails: \<open>no-colon-here\<close> contains no colon, and splitting it does not
  raise \<open>MalformedCoordinateError\<close>.
\<close>

theorem splitArtifact_raises_counterexample:
  "\<not> (splitArtifact (ascii ''no-colon-here'') = Inl MalformedCoordinateError
        \<longleftrightarrow> 0x3A \<notin> set (ascii ''no-colon-here''))"
  by (simp add: splitArtifact_eq ascii_def)

text \<open>
  C3, as the code has it. For an artifact string with at least one colon, written as
  a colon-free group, the first colon and a remainder: the group is the text before the
  first colon, and the artifactId is the remainder up to its own first colon, that is
  the second colon-separated segment. The artifactId is the entire remainder exactly
  when the remainder has no further colon.
\<close>

theorem splitArtifact_first_two_segments:
  assumes "0x3A \<notin> set g"
  shows "splitArtifact (g @ [0x3A] @ r) = Inr (Some g, Some (takeWhile (\<lambda>c. c \<noteq> 0x3A) r))
    \<and> (if 0x3A \<in> set r then splitArtifact (g @ [0x3A] @ r) \<noteq> Inr (Some g, Some r)
        else splitArtifact (g @ [0x3A] @ r) = Inr (Some g, Some r))"
  using splitArtifact_colon [OF assms, of r] by auto

theorem splitArtifact_first_two_segments_witness:
  "splitArtifact (ascii ''org.example:my-tool'')
     = Inr (Some (ascii ''org.example''), Some (ascii ''my-tool''))"
  using splitArtifact_first_two_segments [of "ascii ''org.example''" "ascii ''my-tool''"]
  by (simp add: ascii_def)

text \<open>
  C3 as stated fails on coordinates with a version: the artifactId of
  \<open>org.example:my-tool:1.0\<close> is not the entire remainder \<open>my-tool:1.0\<close>.
\<close>

theorem splitArtifact_remainder_counterexample:
  "splitArtifact (ascii ''org.example:my-tool:1.0'')
     \<noteq> Inr (Some (ascii ''org.example''), Some (ascii ''my-tool:1.0''))"
  using splitArtifact_colon [of "ascii ''org.example''" "ascii ''my-tool:1.0''"]
  by (simp add: ascii_def)

section \<open>The derived wrapper name\<close>

text \<open>
  C4. For every display name the derived wrapper name is the prefix
  \<open>com.github.timtebeek.\<close> followed by the display name without its whitespace
  characters; \<open>Adopt AssertJ\<close> gives \<open>com.github.timtebeek.AdoptAssertJ\<close>, and the
  empty display name gives the bare prefix. The function is total: the scan that
  replaces the whitespace runs terminates on every string.
\<close>

theorem deriveWrapperName_removes_whitespace:
  "deriveWrapperName displayName
     = ascii ''com.github.timtebeek.'' @ filter (\<lambda>c. \<not> isWhiteSpace c) displayName
   \<and> deriveWrapperName (ascii ''Adopt AssertJ'') = ascii ''com.github.timtebeek.AdoptAssertJ''
   \<and> deriveWrapperName [] = ascii ''com.github.timtebeek.''"
  by (simp add: deriveWrapperName_def replaceWhiteSpaceRuns_filter ascii_def isWhiteSpace_def)

section \<open>The Maven command line\<close>

text \<open>
  C5, as the code has it. For props with the recipe name
  \<open>org.openrewrite.java.testing.junit5.JUnit4to5Migration\<close>, the artifact
  \<open>org.openrewrite.recipe:rewrite-testing-frameworks\<close> and \<open>requiresYamlInstall\<close>
  false, the second variant is the Maven Command Line variant. Its body is a
  paragraph of prose, that Maven must be installed, followed by one code block of
  language and title \<open>shell\<close>; the content of the code block, the only snippet of
  the body, is exactly the given \<open>mvn\<close> command, a single line.
\<close>

theorem mavenCommandLine_body_JUnit4to5Migration:
  assumes "recipeName p = ascii ''org.openrewrite.java.testing.junit5.JUnit4to5Migration''"
    and "artifact p = ascii ''org.openrewrite.recipe:rewrite-testing-frameworks''"
    and "requiresYamlInstall p = Some False"
  shows "labels p ! 1 = Some (ascii ''Maven Command Line'')
    \<and> children (variants p ! 1) =
        [Element ''p'' []
           [Text (ascii ''You will need to have ''),
            Element ''a'' [(''href'', ascii ''https://maven.apache.org/download.cgi'')]
              [Text (ascii ''Maven'')],
            Text (ascii '' installed on your machine before you can run the following command.'')],
         Element ''CodeBlock'' [(''language'', ascii ''shell''), (''title'', ascii ''shell'')]
           [Text (ascii ''mvn -U org.openrewrite.maven:rewrite-maven-plugin:run -Drewrite.recipeArtifactCoordinates=org.openrewrite.recipe:rewrite-testing-frameworks:RELEASE -Drewrite.activeRecipes=org.openrewrite.java.testing.junit5.JUnit4to5Migration -Drewrite.exportDatatables=true'')]]
    \<and> textContent (variants p ! 1) =
        ascii ''You will need to have Maven installed on your machine before you can run the following command.''
        @ ascii ''mvn -U org.openrewrite.maven:rewrite-maven-plugin:run -Drewrite.recipeArtifactCoordinates=org.openrewrite.recipe:rewrite-testing-frameworks:RELEASE -Drewrite.activeRecipes=org.openrewrite.java.testing.junit5.JUnit4to5Migration -Drewrite.exportDatatables=true''
    \<and> snippets (variants p ! 1) =
        [ascii ''mvn -U org.openrewrite.maven:rewrite-maven-plugin:run -Drewrite.recipeArtifactCoordinates=org.openrewrite.recipe:rewrite-testing-frameworks:RELEASE -Drewrite.activeRecipes=org.openrewrite.java.testing.junit5.JUnit4to5Migration -Drewrite.exportDatatables=true'']
    \<and> 0x0A \<notin> set (mavenCli p)"
proof -
  have m: "mavenCli p = ascii ''mvn -U org.openrewrite.maven:rewrite-maven-plugin:run -Drewrite.recipeArtifactCoordinates=org.openrewrite.recipe:rewrite-testing-frameworks:RELEASE -Drewrite.activeRecipes=org.openrewrite.java.testing.junit5.JUnit4to5Migration -Drewrite.exportDatatables=true''"
    unfolding mavenCli_def assms ascii_append [symmetric] ascii_eq_iff by simp
  have n: "0x0A \<notin> set (mavenCli p)"
    unfolding mavenCli_def assms by (simp add: ascii_def)
  have t: "variants p ! 1 = mavenCommandLineTab p"
    by (simp add: variants_eq)
  have "children (mavenCommandLineTab p) =
        [Element ''p'' []
           [Text (ascii ''You will need to have ''),
            Element ''a'' [(''href'', ascii ''https://maven.apache.org/download.cgi'')]
              [Text (ascii ''Maven'')],
            Text (ascii '' installed on your machine before you can run the following command.'')],
         Element ''CodeBlock'' [(''language'', ascii ''shell''), (''title'', ascii ''shell'')]
           [Text (mavenCli p)]]"
    by (simp add: mavenCommandLineTab_def CodeBlock_def)
  moreover have "textContent (mavenCommandLineTab p) =
        ascii ''You will need to have Maven installed on your machine before you can run the following command.''
        @ mavenCli p"
    by (simp add: mavenCommandLineTab_def CodeBlock_def ascii_def)
  moreover have "snippets (mavenCommandLineTab p) = [mavenCli p]"
    by (simp add: mavenCommandLineTab_def CodeBlock_def)
  moreover have "labels p ! 1 = Some (ascii ''Maven Command Line'')"
    by (simp add: labels_eq)
  ultimately show ?thesis
    using n unfolding t m by (intro conjI)
qed

theorem mavenCommandLine_body_JUnit4to5Migration_witness:
  "recipeName junit4to5Migration = ascii ''org.openrewrite.java.testing.junit5.JUnit4to5Migration''
   \<and> artifact junit4to5Migration = ascii ''org.openrewrite.recipe:rewrite-testing-frameworks''
   \<and> requiresYamlInstall junit4to5Migration = Some False
   \<and> snippets (variants junit4to5Migration ! 1) =
        [ascii ''mvn -U org.openrewrite.maven:rewrite-maven-plugin:run -Drewrite.recipeArtifactCoordinates=org.openrewrite.recipe:rewrite-testing-frameworks:RELEASE -Drewrite.activeRecipes=org.openrewrite.java.testing.junit5.JUnit4to5Migration -Drewrite.exportDatatables=true'']
   \<and> length (children (variants junit4to5Migration ! 1)) = 2"
proof -
  have a: "recipeName junit4to5Migration
      = ascii ''org.openrewrite.java.testing.junit5.JUnit4to5Migration''"
    and b: "artifact junit4to5Migration
      = ascii ''org.openrewrite.recipe:rewrite-testing-frameworks''"
    and c: "requiresYamlInstall junit4to5Migration = Some False"
    by (simp_all add: junit4to5Migration_def)
  note h = mavenCommandLine_body_JUnit4to5Migration [OF a b c]
  from h have "length (children (variants junit4to5Migration ! 1)) = 2"
    by (elim conjE) (simp only: list.size)
  moreover from h have "snippets (variants junit4to5Migration ! 1) =
        [ascii ''mvn -U org.openrewrite.maven:rewrite-maven-plugin:run -Drewrite.recipeArtifactCoordinates=org.openrewrite.recipe:rewrite-testing-frameworks:RELEASE -Drewrite.activeRecipes=org.openrewrite.java.testing.junit5.JUnit4to5Migration -Drewrite.exportDatatables=true'']"
    by (elim conjE)
  ultimately show ?thesis
    using a b c by (intro conjI)
qed

text \<open>
  C5 as stated fails: the body of the second variant is not the command line alone.
  Its text begins with the sentence of prose, and its children are the paragraph
  and the code block, not one string.
\<close>

theorem mavenCommandLine_body_counterexample:
  "recipeName junit4to5Migration = ascii ''org.openrewrite.java.testing.junit5.JUnit4to5Migration''
   \<and> artifact junit4to5Migration = ascii ''org.openrewrite.recipe:rewrite-testing-frameworks''
   \<and> requiresYamlInstall junit4to5Migration = Some False
   \<and> textContent (variants junit4to5Migration ! 1) \<noteq>
        ascii ''mvn -U org.openrewrite.maven:rewrite-maven-plugin:run -Drewrite.recipeArtifactCoordinates=org.openrewrite.recipe:rewrite-testing-frameworks:RELEASE -Drewrite.activeRecipes=org.openrewrite.java.testing.junit5.JUnit4to5Migration -Drewrite.exportDatatables=true''
   \<and> children (variants junit4to5Migration ! 1) \<noteq>
        [Text (ascii ''mvn -U org.openrewrite.maven:rewrite-maven-plugin:run -Drewrite.recipeArtifactCoordinates=org.openrewrite.recipe:rewrite-testing-frameworks:RELEASE -Drewrite.activeRecipes=org.openrewrite.java.testing.junit5.JUnit4to5Migration -Drewrite.exportDatatables=true'')]"
proof -
  have "textContent (variants junit4to5Migration ! 1) =
      ascii ''You will need to have Maven installed on your machine before you can run the following command.''
      @ mavenCli junit4to5Migration"
    by (simp add: variants_eq mavenCommandLineTab_def CodeBlock_def ascii_def)
  then have l: "hd (textContent (variants junit4to5Migration ! 1)) = 0x59"
    by (simp add: ascii_def)
  have r: "hd (ascii ''mvn -U org.openrewrite.maven:rewrite-maven-plugin:run -Drewrite.recipeArtifactCoordinates=org.openrewrite.recipe:rewrite-testing-frameworks:RELEASE -Drewrite.activeRecipes=org.openrewrite.java.testing.junit5.JUnit4to5Migration -Drewrite.exportDatatables=true'') = (0x6D :: 16 word)"
    by (simp add: ascii_def)
  have "textContent (variants junit4to5Migration ! 1) \<noteq>
        ascii ''mvn -U org.openrewrite.maven:rewrite-maven-plugin:run -Drewrite.recipeArtifactCoordinates=org.openrewrite.recipe:rewrite-testing-frameworks:RELEASE -Drewrite.activeRecipes=org.openrewrite.java.testing.junit5.JUnit4to5Migration -Drewrite.exportDatatables=true''"
    (is "?l \<noteq> ?r")
  proof
    assume "?l = ?r"
    then have "hd ?l = hd ?r"
      by (rule arg_cong)
    with l r show False
      by simp
  qed
  moreover have "length (children (variants junit4to5Migration ! 1)) = 2"
    by (simp add: variants_eq mavenCommandLineTab_def)
  then have "children (variants junit4to5Migration ! 1) \<noteq>
        [Text (ascii ''mvn -U org.openrewrite.maven:rewrite-maven-plugin:run -Drewrite.recipeArtifactCoordinates=org.openrewrite.recipe:rewrite-testing-frameworks:RELEASE -Drewrite.activeRecipes=org.openrewrite.java.testing.junit5.JUnit4to5Migration -Drewrite.exportDatatables=true'')]"
    by auto
  moreover have "recipeName junit4to5Migration
      = ascii ''org.openrewrite.java.testing.junit5.JUnit4to5Migration''"
    and "artifact junit4to5Migration
      = ascii ''org.openrewrite.recipe:rewrite-testing-frameworks''"
    and "requiresYamlInstall junit4to5Migration = Some False"
    by (simp_all add: junit4to5Migration_def)
  ultimately show ?thesis
    by (intro conjI)
qed

section \<open>The IntelliJ variant\<close>

lemma sublist_ascii: "sublist (ascii a) (ascii b) \<longleftrightarrow> sublist a b"
proof
  assume "sublist a b"
  then show "sublist (ascii a) (ascii b)"
    unfolding ascii_def by (rule map_mono_sublist)
next
  assume "sublist (ascii a) (ascii b)"
  then obtain ps ss where "ascii b = ps @ ascii a @ ss"
    by (auto simp: sublist_def)
  then obtain b1 b2 b3 where "b = b1 @ b2 @ b3" and "ascii b2 = ascii a"
    unfolding ascii_def by (auto simp: map_eq_append_conv append_eq_map_conv)
  then show "sublist a b"
    by (auto simp: ascii_eq_iff)
qed

lemma contains_middle: "contains m x \<Longrightarrow> contains (a @ m @ b) x"
proof -
  assume "contains m x"
  then have "sublist x m"
    by (simp add: contains_def)
  moreover have "sublist m (a @ m @ b)"
    by (rule sublist_appendI)
  ultimately show ?thesis
    unfolding contains_def by (rule sublist_order.order.trans)
qed

lemma not_contains_prefix: "\<not> contains s x \<Longrightarrow> \<not> contains s (x @ y)"
proof
  assume n: "\<not> contains s x" and c: "contains s (x @ y)"
  have "sublist x (x @ y)"
    by (rule sublist_append_rightI)
  with c have "sublist x s"
    unfolding contains_def by (metis sublist_order.order.trans)
  with n show False
    by (simp add: contains_def)
qed

lemma not_contains_suffix: "\<not> contains s y \<Longrightarrow> \<not> contains s (x @ y)"
proof
  assume n: "\<not> contains s y" and c: "contains s (x @ y)"
  have "sublist y (x @ y)"
    by (rule sublist_append_leftI)
  with c have "sublist y s"
    unfolding contains_def by (metis sublist_order.order.trans)
  with n show False
    by (simp add: contains_def)
qed

lemma intelliJ_installed:
  assumes "requiresYamlInstallOrDefault p"
  shows "variants p ! 5 =
    Element ''TabItem'' [(''value'', ascii ''intelliJ''), (''label'', ascii ''IntelliJ IDEA Ultimate'')]
      [intellijYamlInstalled]"
  using assms by (simp add: variants_eq intelliJTab_def)

lemma intelliJ_shown:
  assumes "\<not> requiresYamlInstallOrDefault p"
  shows "variants p ! 5 =
    Element ''TabItem'' [(''value'', ascii ''intelliJ''), (''label'', ascii ''IntelliJ IDEA Ultimate'')]
      [intellijYamlShown p]"
  using assms by (simp add: variants_eq intelliJTab_def)

lemma textContent_intellijYamlInstalled:
  "textContent intellijYamlInstalled =
     ascii ''You can run OpenRewrite recipes directly from IntelliJ IDEA, after installing the OpenRewrite plugin.After adding the rewrite.yml file shown above to your project, you should see a run icon in the left margin offering to run the recipe.''"
  by (simp add: intellijYamlInstalled_def ascii_def)

lemma snippets_intellijYamlInstalled: "snippets intellijYamlInstalled = []"
  by (simp add: intellijYamlInstalled_def)

lemma textContent_intellijYamlShown:
  "textContent (intellijYamlShown p) =
     ascii ''You can run OpenRewrite recipes directly from IntelliJ IDEA Ultimate, after installing the OpenRewrite plugin, by adding a rewrite.yml file to your project.''
     @ intellijYaml p
     @ ascii ''After adding the file, you should see a run icon in the left margin offering to run the recipe.''"
  by (simp add: intellijYamlShown_def CodeBlock_def ascii_def)

lemma snippets_intellijYamlShown: "snippets (intellijYamlShown p) = [intellijYaml p]"
  by (simp add: intellijYamlShown_def CodeBlock_def)

lemma intellijYaml_wrapperName: "contains (intellijYaml p) (wrapperName p)"
proof -
  have "intellijYaml p =
      (joinLines [ascii ''---'', ascii ''type: specs.openrewrite.org/v1beta/recipe'']
         @ [0x0A] @ ascii ''name: '')
      @ wrapperName p
      @ ([0x0A] @ joinLines
          [ascii ''displayName: '' @ recipeDisplayName p,
           ascii ''description: '' @ description p,
           ascii ''recipeList:'',
           ascii ''  - '' @ recipeName p])"
    by (simp add: intellijYaml_def)
  then show ?thesis
    unfolding contains_def by (metis sublist_appendI)
qed

lemma intellijYaml_description: "contains (intellijYaml p) (description p)"
proof -
  have "intellijYaml p =
      (joinLines [ascii ''---'', ascii ''type: specs.openrewrite.org/v1beta/recipe'',
         ascii ''name: '' @ wrapperName p, ascii ''displayName: '' @ recipeDisplayName p]
         @ [0x0A] @ ascii ''description: '')
      @ description p
      @ ([0x0A] @ joinLines [ascii ''recipeList:'', ascii ''  - '' @ recipeName p])"
    by (simp add: intellijYaml_def)
  then show ?thesis
    unfolding contains_def by (metis sublist_appendI)
qed

lemma installed_no_derived_name:
  "\<not> contains (textContent intellijYamlInstalled) (deriveWrapperName d)"
proof -
  have "\<not> sublist (ascii ''com.github.timtebeek.'') (textContent intellijYamlInstalled)"
    unfolding textContent_intellijYamlInstalled sublist_ascii
    by (simp add: sublist_Cons_right)
  then show ?thesis
    unfolding deriveWrapperName_def by (intro not_contains_prefix) (simp add: contains_def)
qed

lemma installed_no_derived_description:
  "\<not> contains (textContent intellijYamlInstalled) (deriveDescription d)"
proof -
  have "\<not> sublist (ascii '' and apply best practices to assertions.'')
      (textContent intellijYamlInstalled)"
    unfolding textContent_intellijYamlInstalled sublist_ascii
    by (simp add: sublist_Cons_right)
  then show ?thesis
    unfolding deriveDescription_def by (intro not_contains_suffix) (simp add: contains_def)
qed

lemma moderneCli_snippets:
  "snippets (variants p ! 0) = [modBuild, modConfigRecipes p, modRun p]"
  by (simp add: variants_eq moderneCliTab_def CodeBlock_def)

lemma intelliJ_snippets:
  "snippets (variants p ! 5) = (if requiresYamlInstallOrDefault p then [] else [intellijYaml p])"
  by (simp add: intelliJ_installed intelliJ_shown snippets_intellijYamlInstalled
      snippets_intellijYamlShown)





lemma junit6BestPractices_plain:
  "\<not> requiresYamlInstallOrDefault junit6BestPractices
   \<and> intellijWrapperName junit6BestPractices = None
   \<and> intellijDescription junit6BestPractices = None"
  by (simp add: junit6BestPractices_def requiresYamlInstallOrDefault_def)

lemma java21ForTests_flag: "requiresYamlInstallOrDefault java21ForTests"
  by (simp add: java21ForTests_def requiresYamlInstallOrDefault_def)

text \<open>
  C6, as the code has it. The declarative IDE variant is the sixth variant, labelled
  IntelliJ IDEA Ultimate. When \<open>requiresYamlInstall\<close> is false and neither
  \<open>intellijWrapperName\<close> nor \<open>intellijDescription\<close> is supplied, its body
  contains the derived wrapper name and the derived description. When
  \<open>requiresYamlInstall\<close> is true, the install snippet of the first variant is the
  install line of the other case followed by a further line that installs a
  \<open>rewrite.yml\<close> from a placeholder path, and the body of the IDE variant is the
  fixed prose \<open>intellijYamlInstalled\<close>: it has no snippet, and neither the derived
  wrapper name nor the derived description occurs in it.
\<close>

theorem intelliJ_variant_body:
  "(\<not> requiresYamlInstallOrDefault p \<and> intellijWrapperName p = None \<and> intellijDescription p = None
      \<longrightarrow> labels p ! 5 = Some (ascii ''IntelliJ IDEA Ultimate'')
        \<and> contains (textContent (variants p ! 5)) (deriveWrapperName (recipeDisplayName p))
        \<and> contains (textContent (variants p ! 5)) (deriveDescription (recipeDisplayName p)))
   \<and> (requiresYamlInstallOrDefault p
      \<longrightarrow> snippets (variants p ! 0) ! 1 =
            ascii ''mod config recipes jar install '' @ artifact p @ ascii '':LATEST'' @ [0x0A]
            @ ascii ''mod config recipes yaml install /path/to/your/rewrite.yml''
        \<and> snippets (variants (p\<lparr>requiresYamlInstall := Some False\<rparr>) ! 0) ! 1 =
            ascii ''mod config recipes jar install '' @ artifact p @ ascii '':LATEST''
        \<and> labels p ! 5 = Some (ascii ''IntelliJ IDEA Ultimate'')
        \<and> snippets (variants p ! 5) = []
        \<and> children (variants p ! 5) = [intellijYamlInstalled]
        \<and> \<not> contains (textContent (variants p ! 5)) (deriveWrapperName (recipeDisplayName p))
        \<and> \<not> contains (textContent (variants p ! 5)) (deriveDescription (recipeDisplayName p)))"
proof (intro conjI impI)
  assume a: "\<not> requiresYamlInstallOrDefault p \<and> intellijWrapperName p = None
    \<and> intellijDescription p = None"
  then have w: "wrapperName p = deriveWrapperName (recipeDisplayName p)"
    and d: "description p = deriveDescription (recipeDisplayName p)"
    by (simp_all add: wrapperName_def description_def orElse_def)
  have t: "textContent (variants p ! 5) = textContent (intellijYamlShown p)"
    using a by (simp add: intelliJ_shown)
  show "labels p ! 5 = Some (ascii ''IntelliJ IDEA Ultimate'')"
    by (simp add: labels_eq)
  show "contains (textContent (variants p ! 5)) (deriveWrapperName (recipeDisplayName p))"
    unfolding t textContent_intellijYamlShown w [symmetric]
    by (rule contains_middle) (rule intellijYaml_wrapperName)
  show "contains (textContent (variants p ! 5)) (deriveDescription (recipeDisplayName p))"
    unfolding t textContent_intellijYamlShown d [symmetric]
    by (rule contains_middle) (rule intellijYaml_description)
next
  assume a: "requiresYamlInstallOrDefault p"
  have t: "textContent (variants p ! 5) = textContent intellijYamlInstalled"
    using a by (simp add: intelliJ_installed)
  show "snippets (variants p ! 0) ! 1 =
      ascii ''mod config recipes jar install '' @ artifact p @ ascii '':LATEST'' @ [0x0A]
      @ ascii ''mod config recipes yaml install /path/to/your/rewrite.yml''"
    using a by (simp add: moderneCli_snippets modConfigRecipes_def)
  show "snippets (variants (p\<lparr>requiresYamlInstall := Some False\<rparr>) ! 0) ! 1 =
      ascii ''mod config recipes jar install '' @ artifact p @ ascii '':LATEST''"
    by (simp add: moderneCli_snippets modConfigRecipes_def requiresYamlInstallOrDefault_def)
  show "labels p ! 5 = Some (ascii ''IntelliJ IDEA Ultimate'')"
    by (simp add: labels_eq)
  show "snippets (variants p ! 5) = []"
    using a by (simp add: intelliJ_installed snippets_intellijYamlInstalled)
  show "children (variants p ! 5) = [intellijYamlInstalled]"
    using a by (simp add: intelliJ_installed)
  show "\<not> contains (textContent (variants p ! 5)) (deriveWrapperName (recipeDisplayName p))"
    unfolding t by (rule installed_no_derived_name)
  show "\<not> contains (textContent (variants p ! 5)) (deriveDescription (recipeDisplayName p))"
    unfolding t by (rule installed_no_derived_description)
qed

theorem intelliJ_variant_body_witness:
  "\<not> requiresYamlInstallOrDefault junit6BestPractices
   \<and> intellijWrapperName junit6BestPractices = None
   \<and> intellijDescription junit6BestPractices = None
   \<and> contains (textContent (variants junit6BestPractices ! 5))
       (deriveWrapperName (recipeDisplayName junit6BestPractices))
   \<and> contains (textContent (variants junit6BestPractices ! 5))
       (deriveDescription (recipeDisplayName junit6BestPractices))
   \<and> requiresYamlInstallOrDefault java21ForTests
   \<and> snippets (variants java21ForTests ! 5) = []
   \<and> \<not> contains (textContent (variants java21ForTests ! 5))
       (deriveWrapperName (recipeDisplayName java21ForTests))"
  using intelliJ_variant_body [of junit6BestPractices] intelliJ_variant_body [of java21ForTests]
    junit6BestPractices_plain java21ForTests_flag
  by simp

text \<open>
  C6 as stated fails at the fifth variant, which is the Gradle variant: for the props
  of the JUnit 6 page (flag not set, no override) its body does not contain the
  derived wrapper name, and for the props of the Java 21 page (flag set) its body
  has a snippet.
\<close>

theorem variant_five_counterexample:
  "\<not> requiresYamlInstallOrDefault junit6BestPractices
   \<and> intellijWrapperName junit6BestPractices = None
   \<and> intellijDescription junit6BestPractices = None
   \<and> \<not> contains (textContent (variants junit6BestPractices ! 4))
       (deriveWrapperName (recipeDisplayName junit6BestPractices))
   \<and> requiresYamlInstallOrDefault java21ForTests
   \<and> snippets (variants java21ForTests ! 4) \<noteq> []"
proof -
  have "\<not> contains (textContent (variants junit6BestPractices ! 4))
       (deriveWrapperName (recipeDisplayName junit6BestPractices))"
    by (simp add: variants_eq gradleTab_def CodeBlock_def gradleBuild_def
        junit6BestPractices_def deriveWrapperName_def replaceWhiteSpaceRuns_filter
        isWhiteSpace_def contains_def ascii_def sublist_Cons_right)
  moreover have "snippets (variants java21ForTests ! 4) \<noteq> []"
    by (simp add: variants_eq gradleTab_def CodeBlock_def)
  ultimately show ?thesis
    using junit6BestPractices_plain java21ForTests_flag by simp
qed

section \<open>Overrides\<close>





section \<open>The IntelliJ variant with the flag set\<close>

text \<open>
  C9. When \<open>requiresYamlInstall\<close> is true the IDE variant is one fixed element: for
  any two props values with the flag set it is the same, its body is the constant
  \<open>intellijYamlInstalled\<close>, and its text is the fixed prose.
\<close>

theorem intelliJ_installed_constant:
  assumes "requiresYamlInstall p = Some True" and "requiresYamlInstall q = Some True"
  shows "variants p ! 5 = variants q ! 5
    \<and> children (variants p ! 5) = [intellijYamlInstalled]
    \<and> textContent (variants p ! 5) =
        ascii ''You can run OpenRewrite recipes directly from IntelliJ IDEA, after installing the OpenRewrite plugin.After adding the rewrite.yml file shown above to your project, you should see a run icon in the left margin offering to run the recipe.''"
proof -
  have "requiresYamlInstallOrDefault p" and "requiresYamlInstallOrDefault q"
    using assms by (simp_all add: requiresYamlInstallOrDefault_def)
  then show ?thesis
    by (simp add: intelliJ_installed textContent_intellijYamlInstalled)
qed

theorem intelliJ_installed_constant_witness:
  "requiresYamlInstall java21ForTests = Some True
   \<and> requiresYamlInstall (adoptAssertJ\<lparr>requiresYamlInstall := Some True\<rparr>) = Some True
   \<and> variants java21ForTests ! 5 = variants (adoptAssertJ\<lparr>requiresYamlInstall := Some True\<rparr>) ! 5
   \<and> children (variants java21ForTests ! 5) = [intellijYamlInstalled]"
proof -
  have a: "requiresYamlInstall java21ForTests = Some True"
    by (simp add: java21ForTests_def)
  have b: "requiresYamlInstall (adoptAssertJ\<lparr>requiresYamlInstall := Some True\<rparr>) = Some True"
    by simp
  from intelliJ_installed_constant [OF a b] a b show ?thesis
    by blast
qed

section \<open>An artifact without a colon\<close>

lemma mavenPom_snippets:
  "snippets (variants p ! 2) =
     [mavenPom p (element_at (split_str 0x3A (artifact p)) 0)
        (element_at (split_str 0x3A (artifact p)) 1),
      ascii ''mvn rewrite:run'']"
  by (simp add: variants_eq mavenPomTab_def CodeBlock_def)

lemma mavenPom_undefined:
  "contains (mavenPom p (Some a) None)
     (joinLines
        [ascii ''            <groupId>'' @ a @ ascii ''</groupId>'',
         ascii ''            <artifactId>undefined</artifactId>''])"
proof -
  have "mavenPom p (Some a) None =
     (joinLines
        [ascii ''<project>'',
         ascii ''  <build>'',
         ascii ''    <plugins>'',
         ascii ''      <plugin>'',
         ascii ''        <groupId>org.openrewrite.maven</groupId>'',
         ascii ''        <artifactId>rewrite-maven-plugin</artifactId>'',
         ascii ''        <version>LATEST</version>'',
         ascii ''        <configuration>'',
         ascii ''          <exportDatatables>true</exportDatatables>'',
         ascii ''          <activeRecipes>'',
         ascii ''            <recipe>'' @ recipeName p @ ascii ''</recipe>'',
         ascii ''          </activeRecipes>'',
         ascii ''        </configuration>'',
         ascii ''        <dependencies>'',
         ascii ''          <dependency>''] @ [0x0A])
     @ joinLines
        [ascii ''            <groupId>'' @ a @ ascii ''</groupId>'',
         ascii ''            <artifactId>undefined</artifactId>'']
     @ ([0x0A] @ joinLines
        [ascii ''            <version>LATEST</version>'',
         ascii ''          </dependency>'',
         ascii ''        </dependencies>'',
         ascii ''      </plugin>'',
         ascii ''    </plugins>'',
         ascii ''  </build>'',
         ascii ''</project>''])"
    by (simp add: mavenPom_def toString_def ascii_def)
  then show ?thesis
    unfolding contains_def by (metis sublist_appendI)
qed

lemma noColonHere_artifact: "0x3A \<notin> set (artifact noColonHere)"
  by (simp add: noColonHere_def ascii_def)

text \<open>
  C10. For an artifact without a colon the component raises nothing and returns all
  variants. The group is the whole artifact string and the artifactId is undefined,
  and the dependency block of the Maven POM snippet shows the artifact string as the
  groupId and the text \<open>undefined\<close> as the artifactId.
\<close>

theorem colon_free_artifact_renders:
  assumes "0x3A \<notin> set (artifact p)"
  shows "RunRecipe p \<noteq> Inl e
    \<and> labels p =
        [Some (ascii ''Moderne CLI''), Some (ascii ''Maven Command Line''),
         Some (ascii ''Maven POM''), Some (ascii ''Gradle init script''),
         Some (ascii ''Gradle''), Some (ascii ''IntelliJ IDEA Ultimate'')]
    \<and> splitArtifact (artifact p) = Inr (Some (artifact p), None)
    \<and> snippets (variants p ! 2) ! 0 = mavenPom p (Some (artifact p)) None
    \<and> contains (snippets (variants p ! 2) ! 0)
        (joinLines
          [ascii ''            <groupId>'' @ artifact p @ ascii ''</groupId>'',
           ascii ''            <artifactId>undefined</artifactId>''])"
proof -
  have s: "split_str 0x3A (artifact p) = [artifact p]"
    using assms by (rule split_str_no_sep)
  have m: "snippets (variants p ! 2) ! 0 = mavenPom p (Some (artifact p)) None"
    by (simp add: mavenPom_snippets s element_at_def)
  have "RunRecipe p \<noteq> Inl e"
    by (simp add: RunRecipe_def splitArtifact_eq)
  moreover note labels_eq [of p] splitArtifact_no_colon [OF assms] m
  moreover have "contains (snippets (variants p ! 2) ! 0)
      (joinLines
        [ascii ''            <groupId>'' @ artifact p @ ascii ''</groupId>'',
         ascii ''            <artifactId>undefined</artifactId>''])"
    unfolding m by (rule mavenPom_undefined)
  ultimately show ?thesis
    by blast
qed

theorem colon_free_artifact_renders_witness:
  "0x3A \<notin> set (artifact noColonHere)
   \<and> RunRecipe noColonHere \<noteq> Inl MalformedCoordinateError
   \<and> length (labels noColonHere) = 6
   \<and> splitArtifact (ascii ''no-colon-here'') = Inr (Some (ascii ''no-colon-here''), None)
   \<and> contains (snippets (variants noColonHere ! 2) ! 0)
       (joinLines
         [ascii ''            <groupId>no-colon-here</groupId>'',
          ascii ''            <artifactId>undefined</artifactId>''])"
proof -
  note h = colon_free_artifact_renders [OF noColonHere_artifact, of MalformedCoordinateError]
  have a: "artifact noColonHere = ascii ''no-colon-here''"
    by (simp add: noColonHere_def)
  have g: "ascii ''            <groupId>'' @ ascii ''no-colon-here'' @ ascii ''</groupId>''
      = ascii ''            <groupId>no-colon-here</groupId>''"
    by (simp add: ascii_def)
  from h have "length (labels noColonHere) = 6"
    by simp
  moreover from h have "RunRecipe noColonHere \<noteq> Inl MalformedCoordinateError"
    by blast
  moreover from h have "splitArtifact (ascii ''no-colon-here'')
      = Inr (Some (ascii ''no-colon-here''), None)"
    unfolding a by blast
  moreover from h have "contains (snippets (variants noColonHere ! 2) ! 0)
       (joinLines
         [ascii ''            <groupId>no-colon-here</groupId>'',
          ascii ''            <artifactId>undefined</artifactId>''])"
    unfolding a g by blast
  ultimately show ?thesis
    using noColonHere_artifact by blast
qed

end
